theory Spec2Isabelle
  imports Main
begin

section \<open>Python values handled by the backend\<close>

text \<open>
  The handlers of \<^verbatim>\<open>src/backend/app.py\<close> work on decoded JSON documents (request
  bodies, the Notion answer, the dictionaries returned by boto3). A Python \<^verbatim>\<open>float\<close> is
  kept as sign, mantissa and binary exponent, or as one of the special values that
  \<^verbatim>\<open>json.loads\<close> accepts. A \<^verbatim>\<open>dict\<close> is an association list in insertion order,
  read with \<open>map_of\<close>.
\<close>

datatype pyfloat = Finite bool nat int | Infinity bool | NaN

datatype json =
    JNull
  | JBool bool
  | JInt int
  | JFloat pyfloat
  | JString string
  | JArray "json list"
  | JObject "(string \<times> json) list"

text \<open>Exceptions carry the text that \<^verbatim>\<open>str(exc)\<close> gives.\<close>

datatype exn =
    AttributeError string
  | TypeError string
  | ValueError string
  | OverflowError string
  | BadRequest string
  | ServiceError string

fun str_exc :: "exn \<Rightarrow> string" where
  "str_exc (AttributeError m) = m"
| "str_exc (TypeError m) = m"
| "str_exc (ValueError m) = m"
| "str_exc (OverflowError m) = m"
| "str_exc (BadRequest m) = m"
| "str_exc (ServiceError m) = m"

fun type_name :: "json \<Rightarrow> string" where
  "type_name JNull = ''NoneType''"
| "type_name (JBool b) = ''bool''"
| "type_name (JInt n) = ''int''"
| "type_name (JFloat f) = ''float''"
| "type_name (JString s) = ''str''"
| "type_name (JArray xs) = ''list''"
| "type_name (JObject kvs) = ''dict''"

text \<open>Truth value of a Python object, as \<^verbatim>\<open>if x:\<close> and \<^verbatim>\<open>not x\<close> test it.\<close>

fun truthy :: "json \<Rightarrow> bool" where
  "truthy JNull = False"
| "truthy (JBool b) = b"
| "truthy (JInt n) = (n \<noteq> 0)"
| "truthy (JFloat (Finite s m e)) = (m \<noteq> 0)"
| "truthy (JFloat (Infinity s)) = True"
| "truthy (JFloat NaN) = True"
| "truthy (JString s) = (s \<noteq> [])"
| "truthy (JArray xs) = (xs \<noteq> [])"
| "truthy (JObject kvs) = (kvs \<noteq> [])"

text \<open>\<^verbatim>\<open>dict.get(key, default)\<close>\<close>

definition dict_get :: "(string \<times> json) list \<Rightarrow> string \<Rightarrow> json \<Rightarrow> json" where
  "dict_get kvs k d = (case map_of kvs k of Some v \<Rightarrow> v | None \<Rightarrow> d)"

text \<open>
  \<^verbatim>\<open>x.get(key, default)\<close> on any value: only a dict has the method, every other value
  raises AttributeError.
\<close>

fun py_get :: "json \<Rightarrow> string \<Rightarrow> json \<Rightarrow> exn + json" where
  "py_get (JObject kvs) k d = Inr (dict_get kvs k d)"
| "py_get x k d =
     Inl (AttributeError ([CHR 0x27] @ type_name x @ ''' object has no attribute '' @
                          [CHR 0x27] @ ''get'' @ [CHR 0x27]))"

text \<open>
  \<^verbatim>\<open>for x in v\<close>: a list gives its elements, a dict its keys, a string its characters;
  the other values are not iterable.
\<close>

fun py_iter :: "json \<Rightarrow> exn + json list" where
  "py_iter (JArray xs) = Inr xs"
| "py_iter (JObject kvs) = Inr (map (\<lambda>kv. JString (fst kv)) kvs)"
| "py_iter (JString s) = Inr (map (\<lambda>c. JString [c]) s)"
| "py_iter x =
     Inl (TypeError ([CHR 0x27] @ type_name x @ ''' object is not iterable''))"

text \<open>
  \<^verbatim>\<open>int(x)\<close>. Parsing a string is Python's own routine and is taken as the parameter
  \<open>int_of_str\<close>; a float is truncated towards zero.
\<close>

fun py_int :: "(string \<Rightarrow> exn + int) \<Rightarrow> json \<Rightarrow> exn + int" where
  "py_int int_of_str (JInt n) = Inr n"
| "py_int int_of_str (JBool b) = Inr (if b then 1 else 0)"
| "py_int int_of_str (JFloat (Finite s m e)) =
     (let a = (if 0 \<le> e then int m * 2 ^ nat e else int m div 2 ^ nat (- e))
      in Inr (if s then - a else a))"
| "py_int int_of_str (JFloat (Infinity s)) =
     Inl (OverflowError ''cannot convert float infinity to integer'')"
| "py_int int_of_str (JFloat NaN) =
     Inl (ValueError ''cannot convert float NaN to integer'')"
| "py_int int_of_str (JString s) = int_of_str s"
| "py_int int_of_str x =
     Inl (TypeError (''int() argument must be a string, a bytes-like object or a real number, not ''
                     @ [CHR 0x27] @ type_name x @ [CHR 0x27]))"

section \<open>Effects: calls to the external services\<close>

text \<open>
  A file of a multipart form (werkzeug's \<^verbatim>\<open>FileStorage\<close>). Its truth value is that of
  its filename: \<^verbatim>\<open>FileStorage.__bool__\<close> returns \<^verbatim>\<open>bool(self.filename)\<close>, so the part a
  browser sends for an empty file input (filename \<^verbatim>\<open>""\<close>) is false.
\<close>

record file_storage =
  filename :: string
  content :: string

definition file_truthy :: "file_storage option \<Rightarrow> bool" where
  "file_truthy f = (case f of None \<Rightarrow> False | Some fs \<Rightarrow> filename fs \<noteq> [])"

text \<open>The calls a handler makes to S3, Stripe, SNS and Notion, with their arguments.\<close>

datatype call =
    ListObjectsV2 string
  | GeneratePresignedUrl string string json nat
  | UploadFileobj file_storage string string
  | PaymentIntentCreate int json json
  | PublishTopic json json json
  | PublishPhone json json
  | RequestsPost string "(string \<times> string) list" json

record http_response =
  status_code :: int
  resp_text :: string
  resp_json :: "exn + json"

text \<open>
  What the outside world answers to each call: a value, or the exception the SDK raises.
  \<open>resp_json\<close> is what \<^verbatim>\<open>resp.json()\<close> gives for the body.
\<close>

record world =
  list_objects_v2 :: "string \<Rightarrow> exn + json"
  generate_presigned_url :: "string \<Rightarrow> string \<Rightarrow> json \<Rightarrow> nat \<Rightarrow> exn + json"
  upload_fileobj :: "file_storage \<Rightarrow> string \<Rightarrow> string \<Rightarrow> exn + unit"
  payment_intent_create :: "int \<Rightarrow> json \<Rightarrow> json \<Rightarrow> exn + json"
  publish_topic :: "json \<Rightarrow> json \<Rightarrow> json \<Rightarrow> exn + json"
  publish_phone :: "json \<Rightarrow> json \<Rightarrow> exn + json"
  requests_post :: "string \<Rightarrow> (string \<times> string) list \<Rightarrow> json \<Rightarrow> exn + http_response"
  int_of_str :: "string \<Rightarrow> exn + int"

text \<open>
  A computation returns a value or raises, and leaves the list of calls it made, in
  order.
\<close>

type_synonym 'a eff = "(exn + 'a) \<times> call list"

definition returnE :: "'a \<Rightarrow> 'a eff" where
  "returnE v = (Inr v, [])"

definition liftE :: "exn + 'a \<Rightarrow> 'a eff" where
  "liftE r = (r, [])"

definition callE :: "call \<Rightarrow> exn + 'a \<Rightarrow> 'a eff" where
  "callE c r = (r, [c])"

definition bindE :: "'a eff \<Rightarrow> ('a \<Rightarrow> 'b eff) \<Rightarrow> 'b eff" where
  "bindE m f =
     (case m of
        (Inl e, t) \<Rightarrow> (Inl e, t)
      | (Inr v, t) \<Rightarrow> (case f v of (r, t') \<Rightarrow> (r, t @ t')))"

text \<open>\<^verbatim>\<open>try: m  except Exception as exc: h(exc)\<close>\<close>

definition tryE :: "'a eff \<Rightarrow> (exn \<Rightarrow> 'a eff) \<Rightarrow> 'a eff" where
  "tryE m h =
     (case m of
        (Inl e, t) \<Rightarrow> (case h e of (r, t') \<Rightarrow> (r, t @ t'))
      | (Inr v, t) \<Rightarrow> (Inr v, t))"

section \<open>Requests, responses and the application\<close>

datatype response = Response (status: nat) (body: json)

text \<open>\<^verbatim>\<open>jsonify({"error": msg})\<close>\<close>

definition error_body :: "string \<Rightarrow> json" where
  "error_body msg = JObject [(''error'', JString msg)]"

record request =
  req_method :: string
  req_path :: string
  req_json :: "exn + json"
  req_files :: "(string \<times> file_storage) list"

text \<open>
  \<open>req_json\<close> is what \<^verbatim>\<open>request.get_json(force=True)\<close> gives: the decoded body, or the
  BadRequest that Flask raises for a body that is not JSON.
\<close>

record os_environ =
  S3_BUCKET_NAME :: "string option"
  NOTION_TOKEN :: "string option"
  NOTION_DATABASE_ID :: "string option"
  AWS_REGION :: "string option"
  STRIPE_SECRET_KEY :: "string option"

record modules =
  boto3_imported :: bool
  stripe_imported :: bool

text \<open>The variables that \<^verbatim>\<open>create_app\<close> binds and its handlers close over.\<close>

record app =
  s3_bucket :: "string option"
  notion_token :: "string option"
  notion_database_id :: "string option"
  aws_region :: string
  stripe_secret_key :: "string option"
  s3_client :: "string option"
  sns_client :: "string option"
  stripe :: bool

definition str_truthy :: "string option \<Rightarrow> bool" where
  "str_truthy s = (case s of None \<Rightarrow> False | Some v \<Rightarrow> v \<noteq> [])"

text \<open>A boto3 client is represented by its region; a client object is always true.\<close>

definition create_app :: "modules \<Rightarrow> os_environ \<Rightarrow> app" where
  "create_app mods environ =
     (let bucket = S3_BUCKET_NAME environ;
          region = (case AWS_REGION environ of None \<Rightarrow> ''us-east-1'' | Some r \<Rightarrow> r)
      in \<lparr> s3_bucket = bucket,
           notion_token = NOTION_TOKEN environ,
           notion_database_id = NOTION_DATABASE_ID environ,
           aws_region = region,
           stripe_secret_key = STRIPE_SECRET_KEY environ,
           s3_client = (if boto3_imported mods \<and> str_truthy bucket then Some region else None),
           sns_client = (if boto3_imported mods then Some region else None),
           stripe = stripe_imported mods \<rparr>)"

subsection \<open>GET /api/health\<close>

definition health_check :: "app \<Rightarrow> world \<Rightarrow> request \<Rightarrow> response eff" where
  "health_check a w req = returnE (Response 200 (JObject [(''status'', JString ''ok'')]))"

subsection \<open>GET and POST /api/gallery\<close>

text \<open>
  The loop over the listed objects: one presigned URL per object, appended to
  \<open>objects\<close>; the first exception ends the loop.
\<close>

fun gallery_loop :: "world \<Rightarrow> string \<Rightarrow> json list \<Rightarrow> json list \<Rightarrow> (json list) eff" where
  "gallery_loop w bucket [] objects = returnE objects"
| "gallery_loop w bucket (obj # rest) objects =
     bindE (liftE (py_get obj ''Key'' JNull)) (\<lambda>key.
     bindE (callE (GeneratePresignedUrl ''get_object'' bucket key 3600)
                  (generate_presigned_url w ''get_object'' bucket key 3600)) (\<lambda>url.
     gallery_loop w bucket rest (objects @ [JObject [(''key'', key), (''url'', url)]])))"

definition gallery_list :: "world \<Rightarrow> string \<Rightarrow> response eff" where
  "gallery_list w bucket =
     tryE
       (bindE (callE (ListObjectsV2 bucket) (list_objects_v2 w bucket)) (\<lambda>resp.
        bindE (liftE (py_get resp ''Contents'' (JArray []))) (\<lambda>contents.
        bindE (liftE (py_iter contents)) (\<lambda>objs.
        bindE (gallery_loop w bucket objs []) (\<lambda>objects.
        returnE (Response 200 (JArray objects)))))))
       (\<lambda>exc. returnE (Response 500 (error_body (str_exc exc))))"

definition gallery_upload :: "world \<Rightarrow> string \<Rightarrow> request \<Rightarrow> response eff" where
  "gallery_upload w bucket req =
     (let file = map_of (req_files req) ''image'' in
      if \<not> file_truthy file then returnE (Response 400 (error_body ''No file provided''))
      else
        (case file of
           None \<Rightarrow> returnE (Response 400 (error_body ''No file provided''))
         | Some f \<Rightarrow>
             tryE
               (bindE (callE (UploadFileobj f bucket (filename f))
                             (upload_fileobj w f bucket (filename f))) (\<lambda>u.
                returnE (Response 200 (JObject [(''message'', JString ''File uploaded''),
                                                (''filename'', JString (filename f))]))))
               (\<lambda>exc. returnE (Response 500 (error_body (str_exc exc))))))"

definition gallery :: "app \<Rightarrow> world \<Rightarrow> request \<Rightarrow> response eff" where
  "gallery a w req =
     (if s3_client a = None \<or> \<not> str_truthy (s3_bucket a)
      then returnE (Response 500 (error_body ''S3 is not configured''))
      else
        (case s3_bucket a of
           None \<Rightarrow> returnE (Response 500 (error_body ''S3 is not configured''))
         | Some bucket \<Rightarrow>
             if req_method req = ''GET'' then gallery_list w bucket
             else gallery_upload w bucket req))"

subsection \<open>POST /api/payments\<close>

definition create_payment :: "app \<Rightarrow> world \<Rightarrow> request \<Rightarrow> response eff" where
  "create_payment a w req =
     (if \<not> stripe a \<or> stripe_secret_key a = None
      then returnE (Response 500 (error_body ''Payments are not configured''))
      else
        bindE (liftE (req_json req)) (\<lambda>data.
        bindE (liftE (py_get data ''amount'' JNull)) (\<lambda>amount.
        bindE (liftE (py_get data ''currency'' (JString ''usd''))) (\<lambda>currency.
        if \<not> truthy amount then returnE (Response 400 (error_body ''Amount is required''))
        else
          tryE
            (bindE (liftE (py_int (int_of_str w) amount)) (\<lambda>n.
             bindE (liftE (py_get data ''metadata'' (JObject []))) (\<lambda>metadata.
             bindE (callE (PaymentIntentCreate n currency metadata)
                          (payment_intent_create w n currency metadata)) (\<lambda>client_secret.
             returnE (Response 200 (JObject [(''client_secret'', client_secret)]))))))
            (\<lambda>exc. returnE (Response 500 (error_body (str_exc exc))))))))"

subsection \<open>POST /api/notifications\<close>

text \<open>\<^verbatim>\<open>return jsonify({"message_id": response.get("MessageId")})\<close>\<close>

definition message_id_response :: "json \<Rightarrow> response eff" where
  "message_id_response response =
     bindE (liftE (py_get response ''MessageId'' JNull)) (\<lambda>mid.
     returnE (Response 200 (JObject [(''message_id'', mid)])))"

definition send_notification :: "app \<Rightarrow> world \<Rightarrow> request \<Rightarrow> response eff" where
  "send_notification a w req =
     (if sns_client a = None
      then returnE (Response 500 (error_body ''SNS is not configured''))
      else
        bindE (liftE (req_json req)) (\<lambda>data.
        bindE (liftE (py_get data ''subject'' (JString ''Notification''))) (\<lambda>subject.
        bindE (liftE (py_get data ''message'' JNull)) (\<lambda>message.
        bindE (liftE (py_get data ''topic_arn'' JNull)) (\<lambda>topic_arn.
        bindE (liftE (py_get data ''phone_number'' JNull)) (\<lambda>phone_number.
        if \<not> truthy message then returnE (Response 400 (error_body ''Message is required''))
        else
          tryE
            (if truthy topic_arn then
               bindE (callE (PublishTopic topic_arn message subject)
                            (publish_topic w topic_arn message subject))
                     message_id_response
             else if truthy phone_number then
               bindE (callE (PublishPhone phone_number message)
                            (publish_phone w phone_number message))
                     message_id_response
             else returnE (Response 400
                    (error_body ''topic_arn or phone_number must be provided'')))
            (\<lambda>exc. returnE (Response 500 (error_body (str_exc exc))))))))))"

subsection \<open>GET /api/calendar\<close>

definition bindX :: "exn + 'a \<Rightarrow> ('a \<Rightarrow> exn + 'b) \<Rightarrow> exn + 'b" where
  "bindX m f = (case m of Inl e \<Rightarrow> Inl e | Inr v \<Rightarrow> f v)"

text \<open>The decimal numeral of an index, as the message of \<^verbatim>\<open>join\<close> prints it.\<close>

definition digit :: "nat \<Rightarrow> char" where
  "digit d = ''0123456789'' ! d"

fun string_of_nat :: "nat \<Rightarrow> string" where
  "string_of_nat n =
     (let q = n div 10; last_digit = digit (n mod 10)
      in if q = 0 then [last_digit] else string_of_nat q @ [last_digit])"

declare string_of_nat.simps [simp del]

text \<open>
  The generator \<^verbatim>\<open>item.get("plain_text", "") for item in title_items\<close>, which
  \<^verbatim>\<open>join\<close> runs to its end before it looks at any element.
\<close>

fun plain_texts :: "json list \<Rightarrow> exn + json list" where
  "plain_texts [] = Inr []"
| "plain_texts (item # rest) =
     bindX (py_get item ''plain_text'' (JString [])) (\<lambda>t.
     bindX (plain_texts rest) (\<lambda>ts. Inr (t # ts)))"

text \<open>\<^verbatim>\<open>"".join(seq)\<close>: every element has to be a string.\<close>

fun str_join :: "nat \<Rightarrow> json list \<Rightarrow> exn + string" where
  "str_join i [] = Inr []"
| "str_join i (JString s # rest) = bindX (str_join (Suc i) rest) (\<lambda>r. Inr (s @ r))"
| "str_join i (x # rest) =
     Inl (TypeError (''sequence item '' @ string_of_nat i @ '': expected str instance, ''
                     @ type_name x @ '' found''))"

definition page_title :: "json \<Rightarrow> exn + string" where
  "page_title properties =
     bindX (py_get properties ''Name'' (JObject [])) (\<lambda>title_props.
     bindX (py_get title_props ''title'' (JArray [])) (\<lambda>title_items.
     bindX (py_iter title_items) (\<lambda>items.
     bindX (plain_texts items) (\<lambda>parts.
     str_join 0 parts))))"

definition page_dates :: "json \<Rightarrow> exn + json \<times> json" where
  "page_dates properties =
     bindX (py_get properties ''Date'' (JObject [])) (\<lambda>date_wrapper.
     bindX (py_get date_wrapper ''date'' (JObject [])) (\<lambda>date_props.
     bindX (py_get date_props ''start'' JNull) (\<lambda>start.
     bindX (py_get date_props ''end'' JNull) (\<lambda>end.
     Inr (start, end)))))"

definition event :: "string \<Rightarrow> json \<Rightarrow> json \<Rightarrow> json" where
  "event title start end =
     JObject [(''title'', JString title), (''start'', start), (''end'', end)]"

text \<open>The body of the loop over the pages: title first, then the dates.\<close>

definition parse_page :: "json \<Rightarrow> exn + json" where
  "parse_page page =
     bindX (py_get page ''properties'' (JObject [])) (\<lambda>properties.
     bindX (page_title properties) (\<lambda>title.
     bindX (page_dates properties) (\<lambda>se.
     Inr (event title (fst se) (snd se)))))"

fun calendar_loop :: "json list \<Rightarrow> json list \<Rightarrow> exn + json list" where
  "calendar_loop [] events = Inr events"
| "calendar_loop (page # rest) events =
     bindX (parse_page page) (\<lambda>ev. calendar_loop rest (events @ [ev]))"

definition notion_api_url :: "string \<Rightarrow> string" where
  "notion_api_url database_id =
     ''https://api.notion.com/v1/databases/'' @ database_id @ ''/query''"

definition notion_headers :: "string \<Rightarrow> (string \<times> string) list" where
  "notion_headers token =
     [(''Authorization'', ''Bearer '' @ token),
      (''Notion-Version'', ''2022-06-28''),
      (''Content-Type'', ''application/json'')]"

definition calendar_query :: "world \<Rightarrow> string \<Rightarrow> string \<Rightarrow> response eff" where
  "calendar_query w token database_id =
     tryE
       (bindE (callE (RequestsPost (notion_api_url database_id) (notion_headers token) (JObject []))
                     (requests_post w (notion_api_url database_id) (notion_headers token)
                        (JObject []))) (\<lambda>resp.
        if status_code resp \<noteq> 200
        then returnE (Response 500 (JObject [(''error'', JString ''Notion API returned an error''),
                                             (''details'', JString (resp_text resp))]))
        else
          bindE (liftE (resp_json resp)) (\<lambda>data.
          bindE (liftE (py_get data ''results'' (JArray []))) (\<lambda>results.
          bindE (liftE (py_iter results)) (\<lambda>pages.
          bindE (liftE (calendar_loop pages [])) (\<lambda>events.
          returnE (Response 200 (JArray events))))))))
       (\<lambda>exc. returnE (Response 500 (error_body (str_exc exc))))"

definition get_calendar_events :: "app \<Rightarrow> world \<Rightarrow> request \<Rightarrow> response eff" where
  "get_calendar_events a w req =
     (if \<not> str_truthy (notion_token a) \<or> \<not> str_truthy (notion_database_id a)
      then returnE (Response 500 (error_body ''Notion is not configured''))
      else
        (case (notion_token a, notion_database_id a) of
           (Some token, Some database_id) \<Rightarrow> calendar_query w token database_id
         | _ \<Rightarrow> returnE (Response 500 (error_body ''Notion is not configured''))))"

subsection \<open>The routes\<close>

text \<open>
  The \<^verbatim>\<open>@app.route\<close> decorators, in the order of the source. A rule that accepts GET
  accepts HEAD as well (werkzeug adds it), and the view function runs for it.
\<close>

definition routes ::
  "(string \<times> string list \<times> (app \<Rightarrow> world \<Rightarrow> request \<Rightarrow> response eff)) list" where
  "routes =
     [(''/api/health'', [''GET''], health_check),
      (''/api/gallery'', [''GET'', ''POST''], gallery),
      (''/api/payments'', [''POST''], create_payment),
      (''/api/notifications'', [''POST''], send_notification),
      (''/api/calendar'', [''GET''], get_calendar_events)]"

definition rule_methods :: "string list \<Rightarrow> string list" where
  "rule_methods ms = (if ''GET'' \<in> set ms \<and> ''HEAD'' \<notin> set ms then ms @ [''HEAD''] else ms)"

text \<open>
  The view function that serves a request, run on it; \<open>None\<close> when no rule of this
  application matches and Flask answers by itself.
\<close>

definition dispatch :: "app \<Rightarrow> world \<Rightarrow> request \<Rightarrow> (response eff) option" where
  "dispatch a w req =
     (case find (\<lambda>r. fst r = req_path req \<and> req_method req \<in> set (rule_methods (fst (snd r))))
                routes of
        None \<Rightarrow> None
      | Some r \<Rightarrow> Some (snd (snd r) a w req))"

section \<open>Example inputs\<close>

text \<open>A deployment with every module installed and every variable set.\<close>

definition all_modules :: modules where
  "all_modules = \<lparr> boto3_imported = True, stripe_imported = True \<rparr>"

definition full_environ :: os_environ where
  "full_environ =
     \<lparr> S3_BUCKET_NAME = Some ''photos'',
       NOTION_TOKEN = Some ''secret_token'',
       NOTION_DATABASE_ID = Some ''db1'',
       AWS_REGION = None,
       STRIPE_SECRET_KEY = Some ''sk_test'' \<rparr>"

text \<open>A deployment with nothing installed and nothing set.\<close>

definition no_modules :: modules where
  "no_modules = \<lparr> boto3_imported = False, stripe_imported = False \<rparr>"

definition empty_environ :: os_environ where
  "empty_environ =
     \<lparr> S3_BUCKET_NAME = None, NOTION_TOKEN = None, NOTION_DATABASE_ID = None,
       AWS_REGION = None, STRIPE_SECRET_KEY = None \<rparr>"

text \<open>
  A world in which every service answers: the bucket holds two objects, and Notion
  answers with the document given as parameter.
\<close>

definition answering_world :: "json \<Rightarrow> world" where
  "answering_world notion_document =
     \<lparr> list_objects_v2 = (\<lambda>bucket.
         Inr (JObject [(''Contents'', JArray [JObject [(''Key'', JString ''a.jpg'')],
                                               JObject [(''Key'', JString ''b.jpg'')]])])),
       generate_presigned_url = (\<lambda>client_method bucket key expires_in.
         Inr (JArray [JString ''signed'', JString bucket, key, JInt (int expires_in)])),
       upload_fileobj = (\<lambda>f bucket key. Inr ()),
       payment_intent_create = (\<lambda>amount currency metadata. Inr (JString ''pi_1_secret'')),
       publish_topic = (\<lambda>topic_arn message subject.
         Inr (JObject [(''MessageId'', JString ''topic-message'')])),
       publish_phone = (\<lambda>phone_number message.
         Inr (JObject [(''MessageId'', JString ''phone-message'')])),
       requests_post = (\<lambda>url headers payload.
         Inr \<lparr> status_code = 200, resp_text = [], resp_json = Inr notion_document \<rparr>),
       int_of_str = (\<lambda>s. Inl (ValueError ''invalid literal for int() with base 10'')) \<rparr>"

definition get_request :: "string \<Rightarrow> request" where
  "get_request path =
     \<lparr> req_method = ''GET'', req_path = path,
       req_json = Inl (BadRequest ''Failed to decode JSON object''), req_files = [] \<rparr>"

definition post_json :: "string \<Rightarrow> json \<Rightarrow> request" where
  "post_json path doc =
     \<lparr> req_method = ''POST'', req_path = path, req_json = Inr doc, req_files = [] \<rparr>"

definition post_files :: "string \<Rightarrow> (string \<times> file_storage) list \<Rightarrow> request" where
  "post_files path files =
     \<lparr> req_method = ''POST'', req_path = path,
       req_json = Inl (BadRequest ''Failed to decode JSON object''), req_files = files \<rparr>"

section \<open>Basic facts\<close>

lemma bindE_simps:
  "bindE (Inl e, t) f = (Inl e, t)"
  "bindE (Inr v, t) f = (fst (f v), t @ snd (f v))"
  by (simp_all add: bindE_def split: prod.splits)

lemma bindE_liftE:
  "bindE (liftE (Inr v)) f = f v"
  "bindE (liftE (Inl e)) f = (Inl e, [])"
  by (simp_all add: bindE_def liftE_def split: prod.splits)

lemma bindE_callE:
  "bindE (callE c (Inr v)) f = (fst (f v), c # snd (f v))"
  "bindE (callE c (Inl e)) f = (Inl e, [c])"
  by (simp_all add: bindE_def callE_def split: prod.splits)

lemma tryE_simps:
  "tryE (Inr v, t) h = (Inr v, t)"
  "tryE (Inl e, t) h = (fst (h e), t @ snd (h e))"
  by (simp_all add: tryE_def split: prod.splits)

lemma returnE_simps:
  "fst (returnE v) = Inr v"
  "snd (returnE v) = []"
  by (simp_all add: returnE_def)

lemma dispatch_health:
  "req_path req = ''/api/health'' \<Longrightarrow> req_method req = ''GET'' \<Longrightarrow>
   dispatch a w req = Some (health_check a w req)"
  by (simp add: dispatch_def routes_def rule_methods_def)

lemma dispatch_gallery:
  "req_path req = ''/api/gallery'' \<Longrightarrow> req_method req = ''GET'' \<or> req_method req = ''POST'' \<Longrightarrow>
   dispatch a w req = Some (gallery a w req)"
  by (auto simp add: dispatch_def routes_def rule_methods_def)

lemma dispatch_payments:
  "req_path req = ''/api/payments'' \<Longrightarrow> req_method req = ''POST'' \<Longrightarrow>
   dispatch a w req = Some (create_payment a w req)"
  by (simp add: dispatch_def routes_def rule_methods_def)

lemma dispatch_notifications:
  "req_path req = ''/api/notifications'' \<Longrightarrow> req_method req = ''POST'' \<Longrightarrow>
   dispatch a w req = Some (send_notification a w req)"
  by (simp add: dispatch_def routes_def rule_methods_def)

lemma dispatch_calendar:
  "req_path req = ''/api/calendar'' \<Longrightarrow> req_method req = ''GET'' \<Longrightarrow>
   dispatch a w req = Some (get_calendar_events a w req)"
  by (simp add: dispatch_def routes_def rule_methods_def)

section \<open>The health endpoint\<close>

text \<open>
  C8. A GET request to /api/health is answered with status 200 and the fixed document
  \<^verbatim>\<open>{"status": "ok"}\<close>, whatever modules are installed, whatever the environment
  variables hold and whatever the external services would answer; the handler raises
  nothing and calls no service.
\<close>

theorem health_check_always_ok:
  assumes "req_path req = ''/api/health''" and "req_method req = ''GET''"
  shows "dispatch (create_app mods environ) w req =
           Some (Inr (Response 200 (JObject [(''status'', JString ''ok'')])), [])"
  using assms by (simp add: dispatch_health health_check_def returnE_def)

theorem health_check_always_ok_witness:
  "req_path (get_request ''/api/health'') = ''/api/health'' \<and>
   req_method (get_request ''/api/health'') = ''GET'' \<and>
   dispatch (create_app no_modules empty_environ) (answering_world JNull)
            (get_request ''/api/health'') =
     Some (Inr (Response 200 (JObject [(''status'', JString ''ok'')])), [])"
  using health_check_always_ok [of "get_request ''/api/health''" no_modules empty_environ
                                   "answering_world JNull"]
  by (simp add: get_request_def)

section \<open>Configuration checks\<close>

lemma create_app_fields:
  "s3_client (create_app mods environ) =
     (if boto3_imported mods \<and> str_truthy (S3_BUCKET_NAME environ)
      then Some (case AWS_REGION environ of None \<Rightarrow> ''us-east-1'' | Some r \<Rightarrow> r) else None)"
  "s3_bucket (create_app mods environ) = S3_BUCKET_NAME environ"
  "sns_client (create_app mods environ) =
     (if boto3_imported mods
      then Some (case AWS_REGION environ of None \<Rightarrow> ''us-east-1'' | Some r \<Rightarrow> r) else None)"
  "stripe (create_app mods environ) = stripe_imported mods"
  "stripe_secret_key (create_app mods environ) = STRIPE_SECRET_KEY environ"
  "notion_token (create_app mods environ) = NOTION_TOKEN environ"
  "notion_database_id (create_app mods environ) = NOTION_DATABASE_ID environ"
  by (simp_all add: create_app_def Let_def)

lemma gallery_unconfigured:
  "s3_client a = None \<or> \<not> str_truthy (s3_bucket a) \<Longrightarrow>
   gallery a w req = (Inr (Response 500 (error_body ''S3 is not configured'')), [])"
  by (auto simp add: gallery_def returnE_def)

lemma create_payment_unconfigured:
  "\<not> stripe a \<or> stripe_secret_key a = None \<Longrightarrow>
   create_payment a w req = (Inr (Response 500 (error_body ''Payments are not configured'')), [])"
  by (auto simp add: create_payment_def returnE_def)

lemma send_notification_unconfigured:
  "sns_client a = None \<Longrightarrow>
   send_notification a w req = (Inr (Response 500 (error_body ''SNS is not configured'')), [])"
  by (simp add: send_notification_def returnE_def)

text \<open>
  C4. When the variable S3_BUCKET_NAME is unset (or set to the empty string), every GET
  and every POST request to /api/gallery is answered with status 500 and the document
  \<^verbatim>\<open>{"error": "S3 is not configured"}\<close>, and no call to S3 is made.
\<close>

theorem gallery_without_bucket:
  assumes "S3_BUCKET_NAME environ = None \<or> S3_BUCKET_NAME environ = Some []"
    and "req_path req = ''/api/gallery''"
    and "req_method req = ''GET'' \<or> req_method req = ''POST''"
  shows "dispatch (create_app mods environ) w req =
           Some (Inr (Response 500 (error_body ''S3 is not configured'')), [])"
proof -
  have "\<not> str_truthy (s3_bucket (create_app mods environ))"
    using assms(1) by (auto simp add: create_app_fields str_truthy_def)
  then have "gallery (create_app mods environ) w req =
      (Inr (Response 500 (error_body ''S3 is not configured'')), [])"
    by (simp add: gallery_unconfigured)
  then show ?thesis using assms(2,3) by (simp add: dispatch_gallery)
qed

theorem gallery_without_bucket_witness:
  "(S3_BUCKET_NAME empty_environ = None \<or> S3_BUCKET_NAME empty_environ = Some []) \<and>
   req_path (get_request ''/api/gallery'') = ''/api/gallery'' \<and>
   (req_method (get_request ''/api/gallery'') = ''GET'' \<or>
    req_method (get_request ''/api/gallery'') = ''POST'') \<and>
   dispatch (create_app all_modules empty_environ) (answering_world JNull)
            (get_request ''/api/gallery'') =
     Some (Inr (Response 500 (JObject [(''error'', JString ''S3 is not configured'')])), [])"
  using gallery_without_bucket [of empty_environ "get_request ''/api/gallery''" all_modules
                                   "answering_world JNull"]
  by (simp add: get_request_def empty_environ_def error_body_def)

text \<open>
  C10. The three endpoints that check both the configuration and the input (POST
  /api/gallery, POST /api/payments, POST /api/notifications) check the configuration
  first: when it is missing the answer is the 500 configuration error whatever the
  request holds, so also for a request that would fail validation. In particular a POST
  to /api/gallery without storage is answered 500 and not 400 when it carries no
  \<^verbatim>\<open>image\<close> file; the witness is such a request.
\<close>

theorem configuration_checked_first:
  "(req_path req = ''/api/gallery'' \<and> req_method req = ''POST'' \<and>
      (\<not> boto3_imported mods \<or> S3_BUCKET_NAME environ = None \<or> S3_BUCKET_NAME environ = Some [])
    \<longrightarrow> dispatch (create_app mods environ) w req =
          Some (Inr (Response 500 (error_body ''S3 is not configured'')), []))
   \<and>
   (req_path req = ''/api/payments'' \<and> req_method req = ''POST'' \<and>
      (\<not> stripe_imported mods \<or> STRIPE_SECRET_KEY environ = None)
    \<longrightarrow> dispatch (create_app mods environ) w req =
          Some (Inr (Response 500 (error_body ''Payments are not configured'')), []))
   \<and>
   (req_path req = ''/api/notifications'' \<and> req_method req = ''POST'' \<and> \<not> boto3_imported mods
    \<longrightarrow> dispatch (create_app mods environ) w req =
          Some (Inr (Response 500 (error_body ''SNS is not configured'')), []))"
proof (intro conjI impI)
  assume h: "req_path req = ''/api/gallery'' \<and> req_method req = ''POST'' \<and>
      (\<not> boto3_imported mods \<or> S3_BUCKET_NAME environ = None \<or> S3_BUCKET_NAME environ = Some [])"
  then have "s3_client (create_app mods environ) = None \<or>
             \<not> str_truthy (s3_bucket (create_app mods environ))"
    by (auto simp add: create_app_fields str_truthy_def)
  then show "dispatch (create_app mods environ) w req =
          Some (Inr (Response 500 (error_body ''S3 is not configured'')), [])"
    using h by (simp add: dispatch_gallery gallery_unconfigured)
next
  assume h: "req_path req = ''/api/payments'' \<and> req_method req = ''POST'' \<and>
      (\<not> stripe_imported mods \<or> STRIPE_SECRET_KEY environ = None)"
  then have "\<not> stripe (create_app mods environ) \<or>
             stripe_secret_key (create_app mods environ) = None"
    by (simp add: create_app_fields)
  then show "dispatch (create_app mods environ) w req =
          Some (Inr (Response 500 (error_body ''Payments are not configured'')), [])"
    using h by (simp add: dispatch_payments create_payment_unconfigured)
next
  assume h: "req_path req = ''/api/notifications'' \<and> req_method req = ''POST'' \<and>
      \<not> boto3_imported mods"
  then have "sns_client (create_app mods environ) = None"
    by (simp add: create_app_fields)
  then show "dispatch (create_app mods environ) w req =
          Some (Inr (Response 500 (error_body ''SNS is not configured'')), [])"
    using h by (simp add: dispatch_notifications send_notification_unconfigured)
qed

theorem configuration_checked_first_witness:
  "map_of (req_files (post_files ''/api/gallery'' [])) ''image'' = None \<and>
   dispatch (create_app all_modules empty_environ) (answering_world JNull)
            (post_files ''/api/gallery'' []) =
     Some (Inr (Response 500 (JObject [(''error'', JString ''S3 is not configured'')])), []) \<and>
   dispatch (create_app no_modules empty_environ) (answering_world JNull)
            (post_json ''/api/payments'' (JObject [])) =
     Some (Inr (Response 500 (JObject [(''error'', JString ''Payments are not configured'')])), []) \<and>
   dispatch (create_app no_modules empty_environ) (answering_world JNull)
            (post_json ''/api/notifications'' (JObject [])) =
     Some (Inr (Response 500 (JObject [(''error'', JString ''SNS is not configured'')])), [])"
  using configuration_checked_first [of "post_files ''/api/gallery'' []" all_modules empty_environ
                                        "answering_world JNull"]
        configuration_checked_first [of "post_json ''/api/payments'' (JObject [])" no_modules
                                        empty_environ "answering_world JNull"]
        configuration_checked_first [of "post_json ''/api/notifications'' (JObject [])" no_modules
                                        empty_environ "answering_world JNull"]
  by (simp add: post_files_def post_json_def empty_environ_def no_modules_def error_body_def)

section \<open>Notifications\<close>

lemma send_notification_body:
  assumes "sns_client a = Some client" and "req_json req = Inr (JObject kvs)"
  shows "send_notification a w req =
     (if \<not> truthy (dict_get kvs ''message'' JNull)
      then (Inr (Response 400 (error_body ''Message is required'')), [])
      else
        tryE
          (if truthy (dict_get kvs ''topic_arn'' JNull) then
             bindE (callE (PublishTopic (dict_get kvs ''topic_arn'' JNull)
                             (dict_get kvs ''message'' JNull)
                             (dict_get kvs ''subject'' (JString ''Notification'')))
                          (publish_topic w (dict_get kvs ''topic_arn'' JNull)
                             (dict_get kvs ''message'' JNull)
                             (dict_get kvs ''subject'' (JString ''Notification''))))
                   message_id_response
           else if truthy (dict_get kvs ''phone_number'' JNull) then
             bindE (callE (PublishPhone (dict_get kvs ''phone_number'' JNull)
                             (dict_get kvs ''message'' JNull))
                          (publish_phone w (dict_get kvs ''phone_number'' JNull)
                             (dict_get kvs ''message'' JNull)))
                   message_id_response
           else returnE (Response 400
                  (error_body ''topic_arn or phone_number must be provided'')))
          (\<lambda>exc. returnE (Response 500 (error_body (str_exc exc)))))"
  using assms by (simp add: send_notification_def bindE_liftE returnE_def)




lemma snd_message_id_response: "snd (message_id_response response) = []"
  by (cases "py_get response ''MessageId'' JNull")
     (simp_all add: message_id_response_def bindE_liftE returnE_def)

lemma snd_tryE: "(\<And>e. snd (h e) = []) \<Longrightarrow> snd (tryE m h) = snd m"
  by (cases m; cases "fst m") (simp_all add: tryE_simps)

lemma topic_publish_trace:
  assumes "\<And>e. snd (h e) = []"
  shows "snd (tryE (bindE (callE c r) message_id_response) h) = [c]"
  using assms
  by (cases r) (simp_all add: snd_tryE bindE_callE snd_message_id_response)

text \<open>
  C3, as amended. With SNS configured and a non-empty \<^verbatim>\<open>message\<close>, a request that
  carries both \<^verbatim>\<open>topic_arn\<close> and \<^verbatim>\<open>phone_number\<close> and whose \<^verbatim>\<open>topic_arn\<close> is true in
  Python's sense (not \<^verbatim>\<open>""\<close>, \<^verbatim>\<open>null\<close>, \<^verbatim>\<open>0\<close>, \<^verbatim>\<open>false\<close>, \<^verbatim>\<open>[]\<close>, \<^verbatim>\<open>{}\<close>) makes exactly one call to
  SNS, the publication to the topic, and none to the phone number. The handler tests
  \<^verbatim>\<open>if topic_arn:\<close>, so a request whose \<^verbatim>\<open>topic_arn\<close> is supplied but empty goes to
  the phone number, as the counterexample below shows.
\<close>

theorem topic_takes_precedence:
  assumes "boto3_imported mods"
    and "req_path req = ''/api/notifications''" and "req_method req = ''POST''"
    and "req_json req = Inr (JObject kvs)"
    and "map_of kvs ''message'' = Some message" and "truthy message"
    and "map_of kvs ''topic_arn'' = Some topic_arn" and "truthy topic_arn"
    and "map_of kvs ''phone_number'' = Some phone_number"
  shows "\<exists>r. dispatch (create_app mods environ) w req =
           Some (r, [PublishTopic topic_arn message
                       (dict_get kvs ''subject'' (JString ''Notification''))])"
proof -
  obtain client where c: "sns_client (create_app mods environ) = Some client"
    using assms(1) by (simp add: create_app_fields)
  have m: "dict_get kvs ''message'' JNull = message"
    and t: "dict_get kvs ''topic_arn'' JNull = topic_arn"
    using assms(5,7) by (simp_all add: dict_get_def)
  have "snd (send_notification (create_app mods environ) w req) =
      [PublishTopic topic_arn message (dict_get kvs ''subject'' (JString ''Notification''))]"
    using assms(6,8)
    by (simp add: send_notification_body [OF c assms(4)] m t topic_publish_trace returnE_def)
  then show ?thesis using assms(2,3)
    by (simp add: dispatch_notifications) (metis prod.collapse)
qed

theorem topic_takes_precedence_witness:
  "dispatch (create_app all_modules full_environ) (answering_world JNull)
     (post_json ''/api/notifications''
        (JObject [(''message'', JString ''Your gallery is ready''),
                  (''topic_arn'', JString ''arn:aws:sns:topic''),
                  (''phone_number'', JString ''+61400000000'')])) =
     Some (Inr (Response 200 (JObject [(''message_id'', JString ''topic-message'')])),
           [PublishTopic (JString ''arn:aws:sns:topic'') (JString ''Your gallery is ready'')
              (JString ''Notification'')])"
  using topic_takes_precedence [of all_modules
      "post_json ''/api/notifications''
        (JObject [(''message'', JString ''Your gallery is ready''),
                  (''topic_arn'', JString ''arn:aws:sns:topic''),
                  (''phone_number'', JString ''+61400000000'')])"
      "[(''message'', JString ''Your gallery is ready''),
                  (''topic_arn'', JString ''arn:aws:sns:topic''),
                  (''phone_number'', JString ''+61400000000'')]"
      "JString ''Your gallery is ready''" "JString ''arn:aws:sns:topic''"
      "JString ''+61400000000''" full_environ "answering_world JNull"]
  by (simp add: post_json_def all_modules_def dict_get_def dispatch_notifications
        send_notification_def create_app_fields full_environ_def answering_world_def
        bindE_liftE bindE_callE tryE_simps message_id_response_def returnE_def)

text \<open>
  The claim C3 as it is written fails: both keys are supplied, the topic is the empty
  string, and the message is published to the phone number.
\<close>

theorem empty_topic_goes_to_phone:
  "map_of [(''message'', JString ''Your gallery is ready''),
           (''topic_arn'', JString []),
           (''phone_number'', JString ''+61400000000'')] ''topic_arn'' = Some (JString []) \<and>
   map_of [(''message'', JString ''Your gallery is ready''),
           (''topic_arn'', JString []),
           (''phone_number'', JString ''+61400000000'')] ''phone_number'' =
     Some (JString ''+61400000000'') \<and>
   dispatch (create_app all_modules full_environ) (answering_world JNull)
     (post_json ''/api/notifications''
        (JObject [(''message'', JString ''Your gallery is ready''),
                  (''topic_arn'', JString []),
                  (''phone_number'', JString ''+61400000000'')])) =
     Some (Inr (Response 200 (JObject [(''message_id'', JString ''phone-message'')])),
           [PublishPhone (JString ''+61400000000'') (JString ''Your gallery is ready'')])"
  by (simp add: post_json_def all_modules_def dict_get_def dispatch_notifications
        send_notification_def create_app_fields full_environ_def answering_world_def
        bindE_liftE bindE_callE tryE_simps message_id_response_def returnE_def)

section \<open>Payments\<close>

lemma create_payment_body:
  assumes "stripe a" and "stripe_secret_key a = Some key" and "req_json req = Inr (JObject kvs)"
  shows "create_payment a w req =
     (if \<not> truthy (dict_get kvs ''amount'' JNull)
      then (Inr (Response 400 (error_body ''Amount is required'')), [])
      else
        tryE
          (bindE (liftE (py_int (int_of_str w) (dict_get kvs ''amount'' JNull))) (\<lambda>n.
           bindE (callE (PaymentIntentCreate n (dict_get kvs ''currency'' (JString ''usd''))
                           (dict_get kvs ''metadata'' (JObject [])))
                        (payment_intent_create w n (dict_get kvs ''currency'' (JString ''usd''))
                           (dict_get kvs ''metadata'' (JObject [])))) (\<lambda>client_secret.
           returnE (Response 200 (JObject [(''client_secret'', client_secret)])))))
          (\<lambda>exc. returnE (Response 500 (error_body (str_exc exc)))))"
  using assms by (simp add: create_payment_def bindE_liftE returnE_def)

lemma payment_attempt_status:
  "\<exists>r t. tryE
          (bindE (liftE x) (\<lambda>n.
           bindE (callE (c n) (f n)) (\<lambda>client_secret.
           returnE (Response 200 (JObject [(''client_secret'', client_secret)])))))
          (\<lambda>exc. returnE (Response 500 (error_body (str_exc exc)))) = (Inr r, t) \<and>
         (status r = 200 \<or> status r = 500)"
proof (cases x)
  case (Inl e)
  then show ?thesis by (simp add: bindE_liftE tryE_simps returnE_def)
next
  case (Inr n)
  then show ?thesis
    by (cases "f n") (simp_all add: bindE_liftE bindE_callE tryE_simps returnE_def)
qed

text \<open>
  C1, as amended. With Stripe configured, a POST to /api/payments whose body is a JSON
  object is answered with status 400 and \<^verbatim>\<open>{"error": "Amount is required"}\<close> exactly
  when \<^verbatim>\<open>amount\<close> is missing or false in Python's sense (\<^verbatim>\<open>null\<close>, \<^verbatim>\<open>false\<close>, \<^verbatim>\<open>0\<close>, \<^verbatim>\<open>0.0\<close>,
  \<^verbatim>\<open>""\<close>, \<^verbatim>\<open>[]\<close>, \<^verbatim>\<open>{}\<close>): the handler tests \<^verbatim>\<open>if not amount\<close>. A request whose
  \<^verbatim>\<open>amount\<close> is present and true passes validation: the answer is 200 or 500, never 400.
\<close>

theorem payment_amount_validation:
  assumes "stripe_imported mods" and "STRIPE_SECRET_KEY environ = Some key"
    and "req_path req = ''/api/payments''" and "req_method req = ''POST''"
    and "req_json req = Inr (JObject kvs)"
  shows "(map_of kvs ''amount'' = None \<or> (\<exists>v. map_of kvs ''amount'' = Some v \<and> \<not> truthy v)
          \<longrightarrow> dispatch (create_app mods environ) w req =
                Some (Inr (Response 400 (error_body ''Amount is required'')), []))
       \<and> ((\<exists>v. map_of kvs ''amount'' = Some v \<and> truthy v)
          \<longrightarrow> (\<exists>r t. dispatch (create_app mods environ) w req = Some (Inr r, t) \<and>
                      (status r = 200 \<or> status r = 500)))"
proof (intro conjI impI)
  have cfg: "stripe (create_app mods environ)"
    "stripe_secret_key (create_app mods environ) = Some key"
    using assms(1,2) by (simp_all add: create_app_fields)
  note body = create_payment_body [OF cfg assms(5)]
  {
    assume "map_of kvs ''amount'' = None \<or> (\<exists>v. map_of kvs ''amount'' = Some v \<and> \<not> truthy v)"
    then have "\<not> truthy (dict_get kvs ''amount'' JNull)"
      by (auto simp add: dict_get_def)
    then show "dispatch (create_app mods environ) w req =
                Some (Inr (Response 400 (error_body ''Amount is required'')), [])"
      using assms(3,4) by (simp add: dispatch_payments body)
  }
  {
    assume "\<exists>v. map_of kvs ''amount'' = Some v \<and> truthy v"
    then have "truthy (dict_get kvs ''amount'' JNull)"
      by (auto simp add: dict_get_def)
    then show "\<exists>r t. dispatch (create_app mods environ) w req = Some (Inr r, t) \<and>
                      (status r = 200 \<or> status r = 500)"
      using assms(3,4) payment_attempt_status
      by (simp add: dispatch_payments body)
  }
qed

theorem payment_amount_validation_witness:
  "dispatch (create_app all_modules full_environ) (answering_world JNull)
     (post_json ''/api/payments'' (JObject [(''currency'', JString ''usd'')])) =
     Some (Inr (Response 400 (JObject [(''error'', JString ''Amount is required'')])), []) \<and>
   dispatch (create_app all_modules full_environ) (answering_world JNull)
     (post_json ''/api/payments'' (JObject [(''amount'', JInt 500), (''currency'', JString ''usd'')])) =
     Some (Inr (Response 200 (JObject [(''client_secret'', JString ''pi_1_secret'')])),
           [PaymentIntentCreate 500 (JString ''usd'') (JObject [])])"
  using payment_amount_validation [of all_modules full_environ "''sk_test''"
          "post_json ''/api/payments'' (JObject [(''currency'', JString ''usd'')])"
          "[(''currency'', JString ''usd'')]" "answering_world JNull"]
        payment_amount_validation [of all_modules full_environ "''sk_test''"
          "post_json ''/api/payments'' (JObject [(''amount'', JInt 500), (''currency'', JString ''usd'')])"
          "[(''amount'', JInt 500), (''currency'', JString ''usd'')]" "answering_world JNull"]
  by (simp add: post_json_def all_modules_def full_environ_def dict_get_def dispatch_payments
        create_payment_def create_app_fields answering_world_def error_body_def
        bindE_liftE bindE_callE tryE_simps returnE_def)

text \<open>
  The claim C1 as it is written fails: \<^verbatim>\<open>{"amount": 0, "currency": "usd"}\<close> has an
  \<^verbatim>\<open>amount\<close> and is rejected with the 400 validation error.
\<close>

theorem zero_amount_is_rejected:
  "map_of [(''amount'', JInt 0), (''currency'', JString ''usd'')] ''amount'' = Some (JInt 0) \<and>
   dispatch (create_app all_modules full_environ) (answering_world JNull)
     (post_json ''/api/payments'' (JObject [(''amount'', JInt 0), (''currency'', JString ''usd'')])) =
     Some (Inr (Response 400 (JObject [(''error'', JString ''Amount is required'')])), [])"
  by (simp add: post_json_def all_modules_def full_environ_def dict_get_def dispatch_payments
        create_payment_def create_app_fields answering_world_def error_body_def
        bindE_liftE bindE_callE tryE_simps returnE_def)

section \<open>The gallery\<close>

lemma gallery_loop_signed:
  assumes "\<forall>obj\<in>set objs.
             generate_presigned_url w ''get_object'' bucket (dict_get obj ''Key'' JNull) 3600 =
               Inr (url (dict_get obj ''Key'' JNull))"
  shows "gallery_loop w bucket (map JObject objs) objects =
           (Inr (objects @ map (\<lambda>obj. JObject [(''key'', dict_get obj ''Key'' JNull),
                                                  (''url'', url (dict_get obj ''Key'' JNull))]) objs),
            map (\<lambda>obj. GeneratePresignedUrl ''get_object'' bucket (dict_get obj ''Key'' JNull) 3600)
                objs)"
  using assms
proof (induction objs arbitrary: objects)
  case Nil
  then show ?case by (simp add: returnE_def)
next
  case (Cons obj rest)
  then show ?case by (simp add: bindE_liftE bindE_callE)
qed

lemma gallery_list_signed:
  assumes "list_objects_v2 w bucket = Inr (JObject resp)"
    and "dict_get resp ''Contents'' (JArray []) = JArray (map JObject objs)"
    and "\<forall>obj\<in>set objs.
             generate_presigned_url w ''get_object'' bucket (dict_get obj ''Key'' JNull) 3600 =
               Inr (url (dict_get obj ''Key'' JNull))"
  shows "gallery_list w bucket =
           (Inr (Response 200
                  (JArray (map (\<lambda>obj. JObject [(''key'', dict_get obj ''Key'' JNull),
                                                 (''url'', url (dict_get obj ''Key'' JNull))]) objs))),
            ListObjectsV2 bucket #
            map (\<lambda>obj. GeneratePresignedUrl ''get_object'' bucket (dict_get obj ''Key'' JNull) 3600)
                objs)"
  using assms(1,2)
  by (simp add: gallery_list_def bindE_callE bindE_liftE gallery_loop_signed [OF assms(3)]
        bindE_simps tryE_simps returnE_def)

lemma gallery_configured:
  assumes "boto3_imported mods" and "S3_BUCKET_NAME environ = Some bucket" and "bucket \<noteq> []"
  shows "gallery (create_app mods environ) w req =
           (if req_method req = ''GET'' then gallery_list w bucket
            else gallery_upload w bucket req)"
  using assms by (simp add: gallery_def create_app_fields str_truthy_def)

text \<open>
  C6. With storage configured, when the listing succeeds (\<^verbatim>\<open>list_objects_v2\<close> answers
  with a dictionary whose \<^verbatim>\<open>Contents\<close>, if any, is a list of dictionaries, and the client
  signs a URL for each listed key), a GET to /api/gallery is answered with status 200
  and one \<^verbatim>\<open>{key, url}\<close> record per listed object, in the order of the listing. Each
  \<^verbatim>\<open>url\<close> is what \<^verbatim>\<open>generate_presigned_url\<close> returned for that key when called with
  \<^verbatim>\<open>ExpiresIn=3600\<close>; the calls made are the listing and one such signing per object.
\<close>

theorem gallery_listing:
  assumes "boto3_imported mods" and "S3_BUCKET_NAME environ = Some bucket" and "bucket \<noteq> []"
    and "req_path req = ''/api/gallery''" and "req_method req = ''GET''"
    and "list_objects_v2 w bucket = Inr (JObject resp)"
    and "dict_get resp ''Contents'' (JArray []) = JArray (map JObject objs)"
    and "\<forall>obj\<in>set objs.
           generate_presigned_url w ''get_object'' bucket (dict_get obj ''Key'' JNull) 3600 =
             Inr (url (dict_get obj ''Key'' JNull))"
  shows "dispatch (create_app mods environ) w req =
           Some (Inr (Response 200
                  (JArray (map (\<lambda>obj. JObject [(''key'', dict_get obj ''Key'' JNull),
                                                 (''url'', url (dict_get obj ''Key'' JNull))]) objs))),
                 ListObjectsV2 bucket #
                 map (\<lambda>obj. GeneratePresignedUrl ''get_object'' bucket
                                 (dict_get obj ''Key'' JNull) 3600) objs)"
  using assms(4,5)
  by (simp add: dispatch_gallery gallery_configured [OF assms(1,2,3)]
        gallery_list_signed [OF assms(6,7,8)])

theorem gallery_listing_witness:
  "dispatch (create_app all_modules full_environ) (answering_world JNull)
     (get_request ''/api/gallery'') =
     Some (Inr (Response 200
            (JArray [JObject [(''key'', JString ''a.jpg''),
                              (''url'', JArray [JString ''signed'', JString ''photos'',
                                                JString ''a.jpg'', JInt 3600])],
                     JObject [(''key'', JString ''b.jpg''),
                              (''url'', JArray [JString ''signed'', JString ''photos'',
                                                JString ''b.jpg'', JInt 3600])]])),
           [ListObjectsV2 ''photos'',
            GeneratePresignedUrl ''get_object'' ''photos'' (JString ''a.jpg'') 3600,
            GeneratePresignedUrl ''get_object'' ''photos'' (JString ''b.jpg'') 3600])"
  using gallery_listing [of all_modules full_environ "''photos''" "get_request ''/api/gallery''"
          "answering_world JNull"
          "[(''Contents'', JArray [JObject [(''Key'', JString ''a.jpg'')],
                                   JObject [(''Key'', JString ''b.jpg'')]])]"
          "[[(''Key'', JString ''a.jpg'')], [(''Key'', JString ''b.jpg'')]]"
          "\<lambda>key. JArray [JString ''signed'', JString ''photos'', key, JInt 3600]"]
  by (simp add: get_request_def all_modules_def full_environ_def answering_world_def dict_get_def)

lemma gallery_upload_no_file:
  "map_of (req_files req) ''image'' = None \<or>
   (\<exists>f. map_of (req_files req) ''image'' = Some f \<and> filename f = []) \<Longrightarrow>
   gallery_upload w bucket req = (Inr (Response 400 (error_body ''No file provided'')), [])"
  by (auto simp add: gallery_upload_def file_truthy_def returnE_def)

lemma gallery_upload_file:
  assumes "map_of (req_files req) ''image'' = Some f" and "filename f \<noteq> []"
  shows "gallery_upload w bucket req =
     (Inr (case upload_fileobj w f bucket (filename f) of
             Inr u \<Rightarrow> Response 200 (JObject [(''message'', JString ''File uploaded''),
                                              (''filename'', JString (filename f))])
           | Inl exc \<Rightarrow> Response 500 (error_body (str_exc exc))),
      [UploadFileobj f bucket (filename f)])"
  using assms
  by (cases "upload_fileobj w f bucket (filename f)")
     (simp_all add: gallery_upload_def file_truthy_def bindE_callE tryE_simps returnE_def)

text \<open>
  C7, as amended. With storage configured, a POST to /api/gallery is answered with
  status 400 and \<^verbatim>\<open>{"error": "No file provided"}\<close> when the form has no file under
  \<^verbatim>\<open>image\<close> or when that file has an empty filename (the handler tests \<^verbatim>\<open>if not file\<close>).
  Otherwise the handler makes exactly one call, the upload of the file under its original
  filename; when that call returns, the answer is 200 with that filename, and when it
  raises, the answer is 500 with the text of the exception.
\<close>

theorem upload_under_original_filename:
  assumes "boto3_imported mods" and "S3_BUCKET_NAME environ = Some bucket" and "bucket \<noteq> []"
    and "req_path req = ''/api/gallery''" and "req_method req = ''POST''"
  shows "(map_of (req_files req) ''image'' = None \<or>
          (\<exists>f. map_of (req_files req) ''image'' = Some f \<and> filename f = [])
          \<longrightarrow> dispatch (create_app mods environ) w req =
                Some (Inr (Response 400 (error_body ''No file provided'')), []))
       \<and> (\<forall>f. map_of (req_files req) ''image'' = Some f \<and> filename f \<noteq> []
          \<longrightarrow> (\<exists>r. dispatch (create_app mods environ) w req =
                      Some (Inr r, [UploadFileobj f bucket (filename f)]) \<and>
                    (upload_fileobj w f bucket (filename f) = Inr ()
                     \<longrightarrow> r = Response 200 (JObject [(''message'', JString ''File uploaded''),
                                                      (''filename'', JString (filename f))])) \<and>
                    (\<forall>exc. upload_fileobj w f bucket (filename f) = Inl exc
                     \<longrightarrow> r = Response 500 (error_body (str_exc exc)))))"
proof -
  have g: "dispatch (create_app mods environ) w req = Some (gallery_upload w bucket req)"
    using assms by (simp add: dispatch_gallery gallery_configured)
  show ?thesis
    by (auto simp add: g gallery_upload_no_file gallery_upload_file)
qed

theorem upload_under_original_filename_witness:
  "dispatch (create_app all_modules full_environ) (answering_world JNull)
     (post_files ''/api/gallery'' []) =
     Some (Inr (Response 400 (JObject [(''error'', JString ''No file provided'')])), []) \<and>
   dispatch (create_app all_modules full_environ) (answering_world JNull)
     (post_files ''/api/gallery'' [(''image'', \<lparr>filename = ''wedding.jpg'', content = ''JFIF''\<rparr>)]) =
     Some (Inr (Response 200 (JObject [(''message'', JString ''File uploaded''),
                                       (''filename'', JString ''wedding.jpg'')])),
           [UploadFileobj \<lparr>filename = ''wedding.jpg'', content = ''JFIF''\<rparr> ''photos''
              ''wedding.jpg'']) \<and>
   dispatch (create_app all_modules full_environ)
     ((answering_world JNull)
        \<lparr>upload_fileobj := \<lambda>f bucket key. Inl (ServiceError ''Access Denied'')\<rparr>)
     (post_files ''/api/gallery'' [(''image'', \<lparr>filename = ''wedding.jpg'', content = ''JFIF''\<rparr>)]) =
     Some (Inr (Response 500 (JObject [(''error'', JString ''Access Denied'')])),
           [UploadFileobj \<lparr>filename = ''wedding.jpg'', content = ''JFIF''\<rparr> ''photos''
              ''wedding.jpg''])"
  using upload_under_original_filename [of all_modules full_environ "''photos''"
          "post_files ''/api/gallery'' []" "answering_world JNull"]
        upload_under_original_filename [of all_modules full_environ "''photos''"
          "post_files ''/api/gallery'' [(''image'', \<lparr>filename = ''wedding.jpg'', content = ''JFIF''\<rparr>)]"
          "(answering_world JNull)
             \<lparr>upload_fileobj := \<lambda>f bucket key. Inl (ServiceError ''Access Denied'')\<rparr>"]
        upload_under_original_filename [of all_modules full_environ "''photos''"
          "post_files ''/api/gallery'' [(''image'', \<lparr>filename = ''wedding.jpg'', content = ''JFIF''\<rparr>)]"
          "answering_world JNull"]
  by (simp add: post_files_def all_modules_def full_environ_def answering_world_def error_body_def)

text \<open>
  The claim C7 as it is written fails: the form carries a file under \<^verbatim>\<open>image\<close>, sent with
  an empty filename, and the answer is the 400 validation error; nothing is stored.
\<close>

theorem unnamed_file_is_rejected:
  "map_of (req_files (post_files ''/api/gallery''
              [(''image'', \<lparr>filename = [], content = ''JFIF''\<rparr>)])) ''image'' =
     Some \<lparr>filename = [], content = ''JFIF''\<rparr> \<and>
   dispatch (create_app all_modules full_environ) (answering_world JNull)
     (post_files ''/api/gallery'' [(''image'', \<lparr>filename = [], content = ''JFIF''\<rparr>)]) =
     Some (Inr (Response 400 (JObject [(''error'', JString ''No file provided'')])), [])"
  by (simp add: post_files_def all_modules_def full_environ_def dispatch_gallery
        gallery_configured gallery_upload_def file_truthy_def returnE_def error_body_def)

section \<open>The calendar\<close>

lemma bindX_simps:
  "bindX (Inl e) f = Inl e"
  "bindX (Inr v) f = f v"
  by (simp_all add: bindX_def)

lemma calendar_configured:
  assumes "NOTION_TOKEN environ = Some token" and "token \<noteq> []"
    and "NOTION_DATABASE_ID environ = Some database_id" and "database_id \<noteq> []"
  shows "get_calendar_events (create_app mods environ) w req = calendar_query w token database_id"
  using assms by (simp add: get_calendar_events_def create_app_fields str_truthy_def)

lemma calendar_query_answered:
  assumes "requests_post w (notion_api_url database_id) (notion_headers token) (JObject []) = Inr resp"
    and "status_code resp = 200"
    and "resp_json resp = Inr (JObject data)"
    and "dict_get data ''results'' (JArray []) = JArray pages"
  shows "calendar_query w token database_id =
     (Inr (case calendar_loop pages [] of
             Inr events \<Rightarrow> Response 200 (JArray events)
           | Inl exc \<Rightarrow> Response 500 (error_body (str_exc exc))),
      [RequestsPost (notion_api_url database_id) (notion_headers token) (JObject [])])"
  using assms
  by (cases "calendar_loop pages []")
     (simp_all add: calendar_query_def bindE_callE bindE_liftE tryE_simps returnE_def)

lemma calendar_loop_all_parsed:
  assumes "\<forall>page\<in>set pages. parse_page page = Inr (ev page)"
  shows "calendar_loop pages events = Inr (events @ map ev pages)"
  using assms by (induction pages arbitrary: events) (simp_all add: bindX_simps)

lemma calendar_loop_raises:
  assumes "page \<in> set pages" and "parse_page page = Inl exc"
  shows "\<exists>exc'. calendar_loop pages events = Inl exc'"
  using assms
proof (induction pages arbitrary: events)
  case Nil
  then show ?case by simp
next
  case (Cons p rest)
  show ?case
  proof (cases "parse_page p")
    case (Inl e)
    then show ?thesis by (simp add: bindX_simps)
  next
    case (Inr ev)
    with Cons.prems have "page \<in> set rest" by auto
    with Cons.IH Cons.prems(2) Inr show ?thesis by (simp add: bindX_simps)
  qed
qed

lemma page_title_without_name:
  "map_of props ''Name'' = None \<Longrightarrow> page_title (JObject props) = Inr []"
  by (simp add: page_title_def dict_get_def bindX_simps)

lemma page_dates_without_date:
  "map_of props ''Date'' = None \<Longrightarrow> page_dates (JObject props) = Inr (JNull, JNull)"
  by (simp add: page_dates_def dict_get_def bindX_simps)

lemma page_dates_null_date:
  "map_of props ''Date'' = Some (JObject dt) \<Longrightarrow> map_of dt ''date'' = Some JNull \<Longrightarrow>
   page_dates (JObject props) =
     Inl (AttributeError ([CHR 0x27] @ ''NoneType'' @ ''' object has no attribute '' @
                          [CHR 0x27] @ ''get'' @ [CHR 0x27]))"
  by (simp add: page_dates_def dict_get_def bindX_simps)

lemma parse_page_null_date:
  assumes "py_get page ''properties'' (JObject []) = Inr (JObject props)"
    and "map_of props ''Date'' = Some (JObject dt)" and "map_of dt ''date'' = Some JNull"
  shows "\<exists>exc. parse_page page = Inl exc"
  using assms
  by (cases "page_title (JObject props)")
     (simp_all add: parse_page_def bindX_simps page_dates_null_date)

lemma parse_page_degrades:
  assumes "py_get page ''properties'' (JObject []) = Inr (JObject props)"
    and "map_of props ''Name'' \<noteq> None \<longrightarrow> (\<exists>t. page_title (JObject props) = Inr t)"
    and "map_of props ''Date'' \<noteq> None \<longrightarrow> (\<exists>se. page_dates (JObject props) = Inr se)"
  shows "\<exists>t s e. parse_page page = Inr (event t s e) \<and>
           (map_of props ''Name'' = None \<longrightarrow> t = []) \<and>
           (map_of props ''Date'' = None \<longrightarrow> s = JNull \<and> e = JNull)"
proof -
  obtain t where t: "page_title (JObject props) = Inr t" "map_of props ''Name'' = None \<longrightarrow> t = []"
    using assms(2) page_title_without_name [of props] by (cases "map_of props ''Name''") auto
  obtain s e where se: "page_dates (JObject props) = Inr (s, e)"
      "map_of props ''Date'' = None \<longrightarrow> s = JNull \<and> e = JNull"
    using assms(3) page_dates_without_date [of props] by (cases "map_of props ''Date''") auto
  have "parse_page page = Inr (event t s e)"
    using assms(1) t(1) se(1) by (simp add: parse_page_def bindX_simps)
  with t(2) se(2) show ?thesis
    by (intro exI [of _ t] exI [of _ s] exI [of _ e]) simp
qed

lemma event_fields:
  "py_get (event t s e) ''title'' JNull = Inr (JString t)"
  "py_get (event t s e) ''start'' JNull = Inr s"
  "py_get (event t s e) ''end'' JNull = Inr e"
  by (simp_all add: event_def dict_get_def)

text \<open>
  C2. With Notion configured and a successful upstream answer (status 200, a JSON object
  whose \<^verbatim>\<open>results\<close> is a list): for an entry whose properties lack \<^verbatim>\<open>Name\<close> the title
  step does not raise and gives the empty string, and for an entry whose properties lack
  \<^verbatim>\<open>Date\<close> the date step does not raise and gives \<^verbatim>\<open>null\<close> for start and end. So when
  every property that is present can be read, the request is answered 200 with one
  record per entry, and the record of an entry without \<^verbatim>\<open>Name\<close> has the title \<^verbatim>\<open>""\<close>,
  that of an entry without \<^verbatim>\<open>Date\<close> has \<^verbatim>\<open>null\<close> start and end: a missing property is
  never the reason of a failure.
\<close>

theorem missing_properties_degrade:
  assumes "NOTION_TOKEN environ = Some token" and "token \<noteq> []"
    and "NOTION_DATABASE_ID environ = Some database_id" and "database_id \<noteq> []"
    and "req_path req = ''/api/calendar''" and "req_method req = ''GET''"
    and "requests_post w (notion_api_url database_id) (notion_headers token) (JObject []) = Inr resp"
    and "status_code resp = 200"
    and "resp_json resp = Inr (JObject data)"
    and "dict_get data ''results'' (JArray []) = JArray pages"
  shows "(\<forall>page\<in>set pages. \<forall>props.
            py_get page ''properties'' (JObject []) = Inr (JObject props) \<longrightarrow>
              (map_of props ''Name'' = None \<longrightarrow> page_title (JObject props) = Inr []) \<and>
              (map_of props ''Date'' = None \<longrightarrow> page_dates (JObject props) = Inr (JNull, JNull)))
       \<and>
         ((\<forall>page\<in>set pages. \<exists>props.
             py_get page ''properties'' (JObject []) = Inr (JObject props) \<and>
             (map_of props ''Name'' \<noteq> None \<longrightarrow> (\<exists>t. page_title (JObject props) = Inr t)) \<and>
             (map_of props ''Date'' \<noteq> None \<longrightarrow> (\<exists>se. page_dates (JObject props) = Inr se)))
          \<longrightarrow>
          (\<exists>events.
             dispatch (create_app mods environ) w req =
               Some (Inr (Response 200 (JArray events)),
                     [RequestsPost (notion_api_url database_id) (notion_headers token) (JObject [])]) \<and>
             length events = length pages \<and>
             (\<forall>i<length pages. \<forall>props.
                py_get (pages ! i) ''properties'' (JObject []) = Inr (JObject props) \<longrightarrow>
                  (map_of props ''Name'' = None \<longrightarrow>
                     py_get (events ! i) ''title'' JNull = Inr (JString [])) \<and>
                  (map_of props ''Date'' = None \<longrightarrow>
                     py_get (events ! i) ''start'' JNull = Inr JNull \<and>
                     py_get (events ! i) ''end'' JNull = Inr JNull))))"
proof (intro conjI impI)
  show "\<forall>page\<in>set pages. \<forall>props.
            py_get page ''properties'' (JObject []) = Inr (JObject props) \<longrightarrow>
              (map_of props ''Name'' = None \<longrightarrow> page_title (JObject props) = Inr []) \<and>
              (map_of props ''Date'' = None \<longrightarrow> page_dates (JObject props) = Inr (JNull, JNull))"
    by (simp add: page_title_without_name page_dates_without_date)
next
  assume wf: "\<forall>page\<in>set pages. \<exists>props.
             py_get page ''properties'' (JObject []) = Inr (JObject props) \<and>
             (map_of props ''Name'' \<noteq> None \<longrightarrow> (\<exists>t. page_title (JObject props) = Inr t)) \<and>
             (map_of props ''Date'' \<noteq> None \<longrightarrow> (\<exists>se. page_dates (JObject props) = Inr se))"
  have "\<forall>page\<in>set pages. \<exists>ev. parse_page page = Inr ev \<and>
          (\<forall>props. py_get page ''properties'' (JObject []) = Inr (JObject props) \<longrightarrow>
             (map_of props ''Name'' = None \<longrightarrow> py_get ev ''title'' JNull = Inr (JString [])) \<and>
             (map_of props ''Date'' = None \<longrightarrow>
                py_get ev ''start'' JNull = Inr JNull \<and> py_get ev ''end'' JNull = Inr JNull))"
  proof
    fix page assume "page \<in> set pages"
    with wf obtain props where p: "py_get page ''properties'' (JObject []) = Inr (JObject props)"
      "map_of props ''Name'' \<noteq> None \<longrightarrow> (\<exists>t. page_title (JObject props) = Inr t)"
      "map_of props ''Date'' \<noteq> None \<longrightarrow> (\<exists>se. page_dates (JObject props) = Inr se)"
      by blast
    from parse_page_degrades [OF p] obtain t s e where
      ev: "parse_page page = Inr (event t s e)"
        "map_of props ''Name'' = None \<longrightarrow> t = []"
        "map_of props ''Date'' = None \<longrightarrow> s = JNull \<and> e = JNull"
      by (elim exE conjE)
    show "\<exists>ev. parse_page page = Inr ev \<and>
          (\<forall>props. py_get page ''properties'' (JObject []) = Inr (JObject props) \<longrightarrow>
             (map_of props ''Name'' = None \<longrightarrow> py_get ev ''title'' JNull = Inr (JString [])) \<and>
             (map_of props ''Date'' = None \<longrightarrow>
                py_get ev ''start'' JNull = Inr JNull \<and> py_get ev ''end'' JNull = Inr JNull))"
    proof (intro exI [of _ "event t s e"] conjI allI impI)
      show "parse_page page = Inr (event t s e)" by (rule ev(1))
    next
      fix props'
      assume a: "py_get page ''properties'' (JObject []) = Inr (JObject props')"
        and n: "map_of props' ''Name'' = None"
      from a p(1) have "props' = props" by simp
      with n ev(2) show "py_get (event t s e) ''title'' JNull = Inr (JString [])"
        by (simp add: event_fields)
    next
      fix props'
      assume a: "py_get page ''properties'' (JObject []) = Inr (JObject props')"
        and n: "map_of props' ''Date'' = None"
      from a p(1) have "props' = props" by simp
      with n ev(3) show "py_get (event t s e) ''start'' JNull = Inr JNull"
        by (simp add: event_fields)
    next
      fix props'
      assume a: "py_get page ''properties'' (JObject []) = Inr (JObject props')"
        and n: "map_of props' ''Date'' = None"
      from a p(1) have "props' = props" by simp
      with n ev(3) show "py_get (event t s e) ''end'' JNull = Inr JNull"
        by (simp add: event_fields)
    qed
  qed
  then obtain ev where ev: "\<forall>page\<in>set pages. parse_page page = Inr (ev page) \<and>
          (\<forall>props. py_get page ''properties'' (JObject []) = Inr (JObject props) \<longrightarrow>
             (map_of props ''Name'' = None \<longrightarrow> py_get (ev page) ''title'' JNull = Inr (JString [])) \<and>
             (map_of props ''Date'' = None \<longrightarrow>
                py_get (ev page) ''start'' JNull = Inr JNull \<and>
                py_get (ev page) ''end'' JNull = Inr JNull))"
    by (rule bchoice [THEN exE])
  have loop: "calendar_loop pages [] = Inr (map ev pages)"
    using ev calendar_loop_all_parsed [of pages ev "[]"] by simp
  have d: "dispatch (create_app mods environ) w req =
      Some (Inr (Response 200 (JArray (map ev pages))),
            [RequestsPost (notion_api_url database_id) (notion_headers token) (JObject [])])"
    using assms(5,6)
    by (simp add: dispatch_calendar calendar_configured [OF assms(1-4)]
          calendar_query_answered [OF assms(7-10)] loop)
  show "\<exists>events.
             dispatch (create_app mods environ) w req =
               Some (Inr (Response 200 (JArray events)),
                     [RequestsPost (notion_api_url database_id) (notion_headers token) (JObject [])]) \<and>
             length events = length pages \<and>
             (\<forall>i<length pages. \<forall>props.
                py_get (pages ! i) ''properties'' (JObject []) = Inr (JObject props) \<longrightarrow>
                  (map_of props ''Name'' = None \<longrightarrow>
                     py_get (events ! i) ''title'' JNull = Inr (JString [])) \<and>
                  (map_of props ''Date'' = None \<longrightarrow>
                     py_get (events ! i) ''start'' JNull = Inr JNull \<and>
                     py_get (events ! i) ''end'' JNull = Inr JNull))"
  proof (intro exI [of _ "map ev pages"] conjI allI impI)
    show "dispatch (create_app mods environ) w req =
      Some (Inr (Response 200 (JArray (map ev pages))),
            [RequestsPost (notion_api_url database_id) (notion_headers token) (JObject [])])"
      by (rule d)
  next
    show "length (map ev pages) = length pages" by simp
  next
    fix i props
    assume i: "i < length pages"
      and a: "py_get (pages ! i) ''properties'' (JObject []) = Inr (JObject props)"
      and n: "map_of props ''Name'' = None"
    from i have "pages ! i \<in> set pages" by simp
    with ev a n have "py_get (ev (pages ! i)) ''title'' JNull = Inr (JString [])" by simp
    with i show "py_get (map ev pages ! i) ''title'' JNull = Inr (JString [])" by simp
  next
    fix i props
    assume i: "i < length pages"
      and a: "py_get (pages ! i) ''properties'' (JObject []) = Inr (JObject props)"
      and n: "map_of props ''Date'' = None"
    from i have "pages ! i \<in> set pages" by simp
    with ev a n have "py_get (ev (pages ! i)) ''start'' JNull = Inr JNull" by simp
    with i show "py_get (map ev pages ! i) ''start'' JNull = Inr JNull" by simp
  next
    fix i props
    assume i: "i < length pages"
      and a: "py_get (pages ! i) ''properties'' (JObject []) = Inr (JObject props)"
      and n: "map_of props ''Date'' = None"
    from i have "pages ! i \<in> set pages" by simp
    with ev a n have "py_get (ev (pages ! i)) ''end'' JNull = Inr JNull" by simp
    with i show "py_get (map ev pages ! i) ''end'' JNull = Inr JNull" by simp
  qed
qed

theorem missing_properties_degrade_witness:
  "dispatch (create_app all_modules full_environ)
     (answering_world (JObject [(''results'', JArray
        [JObject [(''properties'', JObject
           [(''Date'', JObject [(''date'', JObject [(''start'', JString ''2024-05-01''),
                                                   (''end'', JNull)])])])],
         JObject [(''properties'', JObject
           [(''Name'', JObject [(''title'', JArray [JObject [(''plain_text'', JString ''Wedding'')]])])])],
         JObject [(''id'', JString ''page-3'')]])]))
     (get_request ''/api/calendar'') =
   Some (Inr (Response 200 (JArray
           [JObject [(''title'', JString []), (''start'', JString ''2024-05-01''), (''end'', JNull)],
            JObject [(''title'', JString ''Wedding''), (''start'', JNull), (''end'', JNull)],
            JObject [(''title'', JString []), (''start'', JNull), (''end'', JNull)]])),
         [RequestsPost ''https://api.notion.com/v1/databases/db1/query''
            [(''Authorization'', ''Bearer secret_token''),
             (''Notion-Version'', ''2022-06-28''),
             (''Content-Type'', ''application/json'')]
            (JObject [])])"
  using missing_properties_degrade [of full_environ "''secret_token''" "''db1''"
      "get_request ''/api/calendar''"
      "answering_world (JObject [(''results'', JArray
        [JObject [(''properties'', JObject
           [(''Date'', JObject [(''date'', JObject [(''start'', JString ''2024-05-01''),
                                                   (''end'', JNull)])])])],
         JObject [(''properties'', JObject
           [(''Name'', JObject [(''title'', JArray [JObject [(''plain_text'', JString ''Wedding'')]])])])],
         JObject [(''id'', JString ''page-3'')]])])"
      "\<lparr> status_code = 200, resp_text = [], resp_json = Inr (JObject [(''results'', JArray
        [JObject [(''properties'', JObject
           [(''Date'', JObject [(''date'', JObject [(''start'', JString ''2024-05-01''),
                                                   (''end'', JNull)])])])],
         JObject [(''properties'', JObject
           [(''Name'', JObject [(''title'', JArray [JObject [(''plain_text'', JString ''Wedding'')]])])])],
         JObject [(''id'', JString ''page-3'')]])]) \<rparr>"
      "[(''results'', JArray
        [JObject [(''properties'', JObject
           [(''Date'', JObject [(''date'', JObject [(''start'', JString ''2024-05-01''),
                                                   (''end'', JNull)])])])],
         JObject [(''properties'', JObject
           [(''Name'', JObject [(''title'', JArray [JObject [(''plain_text'', JString ''Wedding'')]])])])],
         JObject [(''id'', JString ''page-3'')]])]"
      "[JObject [(''properties'', JObject
           [(''Date'', JObject [(''date'', JObject [(''start'', JString ''2024-05-01''),
                                                   (''end'', JNull)])])])],
         JObject [(''properties'', JObject
           [(''Name'', JObject [(''title'', JArray [JObject [(''plain_text'', JString ''Wedding'')]])])])],
         JObject [(''id'', JString ''page-3'')]]"
      all_modules]
  by (simp add: get_request_def full_environ_def answering_world_def dict_get_def
        dispatch_calendar get_calendar_events_def create_app_fields str_truthy_def
        calendar_query_def notion_api_url_def notion_headers_def
        bindE_callE bindE_liftE tryE_simps returnE_def
        parse_page_def page_title_def page_dates_def event_def bindX_simps)

text \<open>
  C9. With Notion configured and a successful upstream answer (status 200, a JSON object
  whose \<^verbatim>\<open>results\<close> is a list), a single entry whose \<^verbatim>\<open>Date\<close> property is present with
  \<^verbatim>\<open>"date": null\<close> makes the whole request fail with status 500: \<^verbatim>\<open>.get("date", {})\<close> returns
  \<^verbatim>\<open>None\<close>, \<^verbatim>\<open>None.get("start")\<close> raises, and the handler answers with the text of the
  exception, whatever the other entries are. The witness is such a request, with a
  well-formed entry before the one with the null date.
\<close>

theorem null_date_fails_request:
  assumes "NOTION_TOKEN environ = Some token" and "token \<noteq> []"
    and "NOTION_DATABASE_ID environ = Some database_id" and "database_id \<noteq> []"
    and "req_path req = ''/api/calendar''" and "req_method req = ''GET''"
    and "requests_post w (notion_api_url database_id) (notion_headers token) (JObject []) = Inr resp"
    and "status_code resp = 200"
    and "resp_json resp = Inr (JObject data)"
    and "dict_get data ''results'' (JArray []) = JArray pages"
    and "page \<in> set pages"
    and "py_get page ''properties'' (JObject []) = Inr (JObject props)"
    and "map_of props ''Date'' = Some (JObject dt)" and "map_of dt ''date'' = Some JNull"
  shows "\<exists>exc. dispatch (create_app mods environ) w req =
           Some (Inr (Response 500 (error_body (str_exc exc))),
                 [RequestsPost (notion_api_url database_id) (notion_headers token) (JObject [])])"
proof -
  from parse_page_null_date [OF assms(12-14)] obtain e where "parse_page page = Inl e" ..
  with calendar_loop_raises [OF assms(11)] obtain exc where "calendar_loop pages [] = Inl exc"
    by blast
  then have "dispatch (create_app mods environ) w req =
           Some (Inr (Response 500 (error_body (str_exc exc))),
                 [RequestsPost (notion_api_url database_id) (notion_headers token) (JObject [])])"
    using assms(5,6)
    by (simp add: dispatch_calendar calendar_configured [OF assms(1-4)]
          calendar_query_answered [OF assms(7-10)])
  then show ?thesis ..
qed

theorem null_date_fails_request_witness:
  "dispatch (create_app all_modules full_environ)
     (answering_world (JObject [(''results'', JArray
        [JObject [(''properties'', JObject
           [(''Name'', JObject [(''title'', JArray [JObject [(''plain_text'', JString ''Wedding'')]])]),
            (''Date'', JObject [(''date'', JObject [(''start'', JString ''2024-05-01''),
                                                   (''end'', JNull)])])])],
         JObject [(''properties'', JObject
           [(''Name'', JObject [(''title'', JArray [JObject [(''plain_text'', JString ''Portrait'')]])]),
            (''Date'', JObject [(''date'', JNull)])])]])]))
     (get_request ''/api/calendar'') =
   Some (Inr (Response 500 (JObject [(''error'',
           JString ([CHR 0x27] @ ''NoneType'' @ ''' object has no attribute '' @
                    [CHR 0x27] @ ''get'' @ [CHR 0x27]))])),
         [RequestsPost ''https://api.notion.com/v1/databases/db1/query''
            [(''Authorization'', ''Bearer secret_token''),
             (''Notion-Version'', ''2022-06-28''),
             (''Content-Type'', ''application/json'')]
            (JObject [])])"
  using null_date_fails_request [of full_environ "''secret_token''" "''db1''"
      "get_request ''/api/calendar''"
      "answering_world (JObject [(''results'', JArray
        [JObject [(''properties'', JObject
           [(''Name'', JObject [(''title'', JArray [JObject [(''plain_text'', JString ''Wedding'')]])]),
            (''Date'', JObject [(''date'', JObject [(''start'', JString ''2024-05-01''),
                                                   (''end'', JNull)])])])],
         JObject [(''properties'', JObject
           [(''Name'', JObject [(''title'', JArray [JObject [(''plain_text'', JString ''Portrait'')]])]),
            (''Date'', JObject [(''date'', JNull)])])]])])"
      "\<lparr> status_code = 200, resp_text = [], resp_json = Inr (JObject [(''results'', JArray
        [JObject [(''properties'', JObject
           [(''Name'', JObject [(''title'', JArray [JObject [(''plain_text'', JString ''Wedding'')]])]),
            (''Date'', JObject [(''date'', JObject [(''start'', JString ''2024-05-01''),
                                                   (''end'', JNull)])])])],
         JObject [(''properties'', JObject
           [(''Name'', JObject [(''title'', JArray [JObject [(''plain_text'', JString ''Portrait'')]])]),
            (''Date'', JObject [(''date'', JNull)])])]])]) \<rparr>"
      "[(''results'', JArray
        [JObject [(''properties'', JObject
           [(''Name'', JObject [(''title'', JArray [JObject [(''plain_text'', JString ''Wedding'')]])]),
            (''Date'', JObject [(''date'', JObject [(''start'', JString ''2024-05-01''),
                                                   (''end'', JNull)])])])],
         JObject [(''properties'', JObject
           [(''Name'', JObject [(''title'', JArray [JObject [(''plain_text'', JString ''Portrait'')]])]),
            (''Date'', JObject [(''date'', JNull)])])]])]"
      "[JObject [(''properties'', JObject
           [(''Name'', JObject [(''title'', JArray [JObject [(''plain_text'', JString ''Wedding'')]])]),
            (''Date'', JObject [(''date'', JObject [(''start'', JString ''2024-05-01''),
                                                   (''end'', JNull)])])])],
         JObject [(''properties'', JObject
           [(''Name'', JObject [(''title'', JArray [JObject [(''plain_text'', JString ''Portrait'')]])]),
            (''Date'', JObject [(''date'', JNull)])])]]"
      "JObject [(''properties'', JObject
           [(''Name'', JObject [(''title'', JArray [JObject [(''plain_text'', JString ''Portrait'')]])]),
            (''Date'', JObject [(''date'', JNull)])])]"
      "[(''Name'', JObject [(''title'', JArray [JObject [(''plain_text'', JString ''Portrait'')]])]),
        (''Date'', JObject [(''date'', JNull)])]"
      "[(''date'', JNull)]" all_modules]
  by (simp add: get_request_def full_environ_def answering_world_def dict_get_def
        dispatch_calendar get_calendar_events_def create_app_fields str_truthy_def
        calendar_query_def notion_api_url_def notion_headers_def error_body_def
        bindE_callE bindE_liftE tryE_simps returnE_def
        parse_page_def page_title_def page_dates_def event_def bindX_simps)

end
